theory Spec2Isabelle
  imports Main "HOL-Library.Word" "HOL-Library.Sublist"
begin

section \<open>Strings of the host language\<close>

text \<open>
  A JavaScript string is a sequence of UTF-16 code units. The Cyrillic texts of the
  program are written below as their code units.
\<close>

type_synonym jsstring = "16 word list"

text \<open>
  \<open>String.prototype.trim\<close> removes the leading and the trailing run of code units that
  are WhiteSpace or LineTerminator in ECMAScript: TAB, LF, VT, FF, CR, SPACE, NBSP,
  U+1680, U+2000 to U+200A, U+2028, U+2029, U+202F, U+205F, U+3000 and U+FEFF.
\<close>

definition isWhiteSpace :: "16 word \<Rightarrow> bool" where
  "isWhiteSpace c \<longleftrightarrow>
     c \<in> set [0x0009, 0x000A, 0x000B, 0x000C, 0x000D, 0x0020, 0x00A0, 0x1680,
              0x2000, 0x2001, 0x2002, 0x2003, 0x2004, 0x2005, 0x2006, 0x2007,
              0x2008, 0x2009, 0x200A, 0x2028, 0x2029, 0x202F, 0x205F, 0x3000, 0xFEFF]"

definition trim :: "jsstring \<Rightarrow> jsstring" where
  "trim s = rev (dropWhile isWhiteSpace (rev (dropWhile isWhiteSpace s)))"

text \<open>
  \<open>String.prototype.includes\<close>: does the second string occur in the first one as a
  contiguous run of code units, searched from position 0.
\<close>

fun startsWith :: "jsstring \<Rightarrow> jsstring \<Rightarrow> bool" where
  "startsWith s [] = True"
| "startsWith [] (c # q) = False"
| "startsWith (b # s) (c # q) = (b = c \<and> startsWith s q)"

fun str_includes :: "jsstring \<Rightarrow> jsstring \<Rightarrow> bool" where
  "str_includes [] q = (q = [])"
| "str_includes (b # s) q = (startsWith (b # s) q \<or> str_includes s q)"

text \<open>
  \<open>String.prototype.toLowerCase\<close> follows the Unicode case mapping, which is a property
  of the host and not of this program: the filter below takes it as the parameter
  \<open>lc\<close>. For the texts the program itself contains, which are Basic Latin and Cyrillic
  (U+0400 to U+045F) only, the mapping works code unit by code unit and is
  \<open>toLowerCase\<close> here; it leaves every other code unit as it is.
\<close>

definition lowerUnit :: "16 word \<Rightarrow> 16 word" where
  "lowerUnit c =
     (if 0x0041 \<le> c \<and> c \<le> 0x005A then c + 0x0020
      else if 0x0410 \<le> c \<and> c \<le> 0x042F then c + 0x0020
      else if 0x0400 \<le> c \<and> c \<le> 0x040F then c + 0x0050
      else c)"

definition toLowerCase :: "jsstring \<Rightarrow> jsstring" where
  "toLowerCase s = map lowerUnit s"

section \<open>Tasks\<close>

datatype status = Active | Completed

text \<open>The interface \<open>Task\<close>: \<open>id\<close> and \<open>description\<close> are optional fields.\<close>

record task =
  task_id :: "nat option"
  title :: jsstring
  description :: "jsstring option"
  status :: status

section \<open>The filtered view\<close>

text \<open>
  The guard \<open>task.description && ...\<close> is truthy only for a description that is present
  and not the empty string.
\<close>

definition matchesQuery :: "(jsstring \<Rightarrow> jsstring) \<Rightarrow> jsstring \<Rightarrow> task \<Rightarrow> bool" where
  "matchesQuery lc lowerCaseQuery t \<longleftrightarrow>
     str_includes (lc (title t)) lowerCaseQuery \<or>
     (case description t of
        None \<Rightarrow> False
      | Some d \<Rightarrow> d \<noteq> [] \<and> str_includes (lc d) lowerCaseQuery)"

definition filteredTasks :: "(jsstring \<Rightarrow> jsstring) \<Rightarrow> task list \<Rightarrow> jsstring \<Rightarrow> task list" where
  "filteredTasks lc ts q =
     (let lowerCaseQuery = trim (lc q)
      in if lowerCaseQuery = [] then ts
         else filter (matchesQuery lc lowerCaseQuery) ts)"

section \<open>The task table\<close>

text \<open>
  The table \<open>tasks\<close> of the Dexie database \<open>todoDatabase\<close>, schema
  \<open>++id, title, description, status\<close>: the primary key \<open>id\<close> is generated by a counter
  that starts at 1, and the rows are listed in the order of their keys. A call on the
  table is a promise; the host decides whether it is fulfilled or rejected, and a
  rejected call leaves the table as it was.
\<close>

datatype error = StoreFailure | InvalidKey | ConstraintError

datatype outcome = Resolves | Rejects

record database =
  rows :: "task list"
  nextId :: nat

definition empty_database :: database where
  "empty_database = \<lparr>rows = [], nextId = 1\<rparr>"

definition hasKey :: "database \<Rightarrow> nat \<Rightarrow> bool" where
  "hasKey d k \<longleftrightarrow> list_ex (\<lambda>r. task_id r = Some k) (rows d)"

fun insertByKey :: "nat \<Rightarrow> task \<Rightarrow> task list \<Rightarrow> task list" where
  "insertByKey k t [] = [t]"
| "insertByKey k t (r # rs) =
     (case task_id r of
        None \<Rightarrow> r # insertByKey k t rs
      | Some j \<Rightarrow> if j < k then r # insertByKey k t rs else t # r # rs)"

text \<open>
  \<open>add\<close>: an object without \<open>id\<close> gets the next generated key and is the last row; an
  object that brings its own key is refused when the key is taken, and otherwise moves
  the generator past that key.
\<close>

definition dexie_add :: "database \<Rightarrow> task \<Rightarrow> error + (database \<times> nat)" where
  "dexie_add d t =
     (case task_id t of
        None \<Rightarrow>
          Inr (\<lparr>rows = rows d @ [t\<lparr>task_id := Some (nextId d)\<rparr>],
                nextId = Suc (nextId d)\<rparr>, nextId d)
      | Some k \<Rightarrow>
          if hasKey d k then Inl ConstraintError
          else Inr (\<lparr>rows = insertByKey k t (rows d),
                     nextId = max (nextId d) (Suc k)\<rparr>, k))"

fun dexie_bulkAdd :: "database \<Rightarrow> task list \<Rightarrow> error + database" where
  "dexie_bulkAdd d [] = Inr d"
| "dexie_bulkAdd d (t # ts) =
     (case dexie_add d t of
        Inl e \<Rightarrow> Inl e
      | Inr (d', k) \<Rightarrow> dexie_bulkAdd d' ts)"

text \<open>
  \<open>update(key, {title, description})\<close> changes the two fields of the row with that key
  and resolves also when no row has the key; a key that is \<open>undefined\<close> is not a valid
  key. The number of changed rows that the promise carries is not used by the program.
\<close>

definition dexie_update :: "database \<Rightarrow> nat option \<Rightarrow> jsstring \<Rightarrow> jsstring \<Rightarrow> error + database" where
  "dexie_update d key newTitle newDescription =
     (case key of
        None \<Rightarrow> Inl InvalidKey
      | Some k \<Rightarrow>
          Inr (d\<lparr>rows := map (\<lambda>r. if task_id r = Some k
                                  then r\<lparr>title := newTitle, description := Some newDescription\<rparr>
                                  else r) (rows d)\<rparr>))"

definition dexie_delete :: "database \<Rightarrow> nat \<Rightarrow> database" where
  "dexie_delete d k = d\<lparr>rows := filter (\<lambda>r. task_id r \<noteq> Some k) (rows d)\<rparr>"

subsection \<open>The populate event\<close>

text \<open>
  The three objects of the \<open>populate\<close> handler, in the order of the array: \<open>Kupit' produkty\<close>,
  \<open>Zavershit' otchet\<close> and \<open>Pozvonit' drugu\<close>, each with its description.
\<close>

definition seedTasks :: "task list" where
  "seedTasks =
     [\<lparr>task_id = None,
       title = [0x41A, 0x443, 0x43F, 0x438, 0x442, 0x44C, 0x20, 0x43F, 0x440, 0x43E, 0x434,
                0x443, 0x43A, 0x442, 0x44B],
       description = Some [0x41C, 0x43E, 0x43B, 0x43E, 0x43A, 0x43E, 0x2C, 0x20, 0x445, 0x43B,
                           0x435, 0x431, 0x2C, 0x20, 0x44F, 0x439, 0x446, 0x430],
       status = Active\<rparr>,
      \<lparr>task_id = None,
       title = [0x417, 0x430, 0x432, 0x435, 0x440, 0x448, 0x438, 0x442, 0x44C, 0x20, 0x43E,
                0x442, 0x447, 0x435, 0x442],
       description = Some [0x41F, 0x43E, 0x434, 0x433, 0x43E, 0x442, 0x43E, 0x432, 0x438, 0x442,
                           0x44C, 0x20, 0x43F, 0x440, 0x435, 0x437, 0x435, 0x43D, 0x442, 0x430,
                           0x446, 0x438, 0x44E, 0x20, 0x434, 0x43B, 0x44F, 0x20, 0x432, 0x441,
                           0x442, 0x440, 0x435, 0x447, 0x438],
       status = Active\<rparr>,
      \<lparr>task_id = None,
       title = [0x41F, 0x43E, 0x437, 0x432, 0x43E, 0x43D, 0x438, 0x442, 0x44C, 0x20, 0x434,
                0x440, 0x443, 0x433, 0x443],
       description = Some [0x423, 0x437, 0x43D, 0x430, 0x442, 0x44C, 0x20, 0x43A, 0x430, 0x43A,
                           0x20, 0x434, 0x435, 0x43B, 0x430],
       status = Completed\<rparr>]"

definition on_populate :: "database \<Rightarrow> error + database" where
  "on_populate d = dexie_bulkAdd d seedTasks"

text \<open>
  Opening the database: Dexie fires \<open>populate\<close> when it creates the database, that is
  when the browser holds none under this name (\<open>None\<close>), and never for a database that
  exists already, whatever its rows.
\<close>

definition dexie_open :: "database option \<Rightarrow> error + database" where
  "dexie_open stored =
     (case stored of
        None \<Rightarrow> on_populate empty_database
      | Some d \<Rightarrow> Inr d)"

section \<open>Asynchronous code with exceptions\<close>

text \<open>
  A statement runs on the state of the component and either completes (\<open>Inr\<close>) or throws
  (\<open>Inl\<close>); what it assigned before throwing stays assigned. An \<open>await\<close> on a rejected
  promise throws the promise's error. The handlers are run one at a time, each to its
  end.
\<close>

type_synonym ('s, 'a) io = "'s \<Rightarrow> (error + 'a) \<times> 's"

definition return_io :: "'a \<Rightarrow> ('s, 'a) io" where
  "return_io x = (\<lambda>s. (Inr x, s))"

definition bind_io :: "('s, 'a) io \<Rightarrow> ('a \<Rightarrow> ('s, 'b) io) \<Rightarrow> ('s, 'b) io" where
  "bind_io m f = (\<lambda>s. case m s of (Inl e, s') \<Rightarrow> (Inl e, s') | (Inr x, s') \<Rightarrow> f x s')"

definition modify_io :: "('s \<Rightarrow> 's) \<Rightarrow> ('s, unit) io" where
  "modify_io f = (\<lambda>s. (Inr (), f s))"

definition discard :: "('s, 'a) io \<Rightarrow> ('s, unit) io" where
  "discard m = bind_io m (\<lambda>_. return_io ())"

fun block :: "('s, unit) io list \<Rightarrow> ('s, unit) io" where
  "block [] = return_io ()"
| "block (m # ms) = bind_io m (\<lambda>_. block ms)"

definition try_catch :: "('s, unit) io \<Rightarrow> (error \<Rightarrow> ('s, unit) io) \<Rightarrow> ('s, unit) io" where
  "try_catch body handler =
     (\<lambda>s. case body s of (Inl e, s') \<Rightarrow> handler e s' | (Inr x, s') \<Rightarrow> (Inr x, s'))"

text \<open>
  \<open>finally\<close> runs after the protected part on either way out; when it completes, the
  way out of the protected part is kept, and when it throws, its own error goes on.
\<close>

definition try_finally :: "('s, unit) io \<Rightarrow> ('s, unit) io \<Rightarrow> ('s, unit) io" where
  "try_finally body finalizer =
     (\<lambda>s. case body s of
             (r, s') \<Rightarrow> (case finalizer s' of (Inl e, s'') \<Rightarrow> (Inl e, s'') | (Inr x, s'') \<Rightarrow> (r, s'')))"

definition try_catch_finally ::
    "('s, unit) io \<Rightarrow> (error \<Rightarrow> ('s, unit) io) \<Rightarrow> ('s, unit) io \<Rightarrow> ('s, unit) io" where
  "try_catch_finally body handler finalizer = try_finally (try_catch body handler) finalizer"

section \<open>The state of the component\<close>

text \<open>
  \<open>view_state\<close> holds what the variants of the page share: the database behind the handle
  \<open>db\<close>, the store \<open>tasks\<close>, the variables of the form, the store \<open>searchQuery\<close> and the
  flag \<open>isLoading\<close>. The field \<open>dbcalls\<close> is not a variable of the program: it records,
  in order, every call the component makes on the table. Nor is \<open>loadingShown\<close>: a
  handler is suspended while its call is pending and the page is drawn meanwhile, with
  the skeleton in place of the list when \<open>isLoading\<close> holds; the field records, call by
  call, the value of \<open>isLoading\<close> at that moment.
\<close>

datatype dbcall =
    ToArray
  | Add task
  | Update "nat option" jsstring jsstring
  | Delete nat

record view_state =
  db :: database
  tasks :: "task list"
  newTaskTitle :: jsstring
  newTaskDescription :: jsstring
  editingTask :: "task option"
  searchQuery :: jsstring
  isLoading :: bool
  dbcalls :: "dbcall list"
  loadingShown :: "bool list"

definition calling :: "dbcall \<Rightarrow> 'a view_state_scheme \<Rightarrow> 'a view_state_scheme" where
  "calling c s = s\<lparr>dbcalls := dbcalls s @ [c], loadingShown := loadingShown s @ [isLoading s]\<rparr>"

definition table_toArray :: "outcome \<Rightarrow> ('a view_state_scheme, task list) io" where
  "table_toArray oc =
     (\<lambda>s. case oc of
             Rejects \<Rightarrow> (Inl StoreFailure, calling ToArray s)
           | Resolves \<Rightarrow> (Inr (rows (db s)), calling ToArray s))"

definition table_add :: "outcome \<Rightarrow> task \<Rightarrow> ('a view_state_scheme, nat) io" where
  "table_add oc t =
     (\<lambda>s. case oc of
             Rejects \<Rightarrow> (Inl StoreFailure, calling (Add t) s)
           | Resolves \<Rightarrow>
               (case dexie_add (db s) t of
                  Inl e \<Rightarrow> (Inl e, calling (Add t) s)
                | Inr (d, k) \<Rightarrow> (Inr k, calling (Add t) (s\<lparr>db := d\<rparr>))))"

definition table_update ::
    "outcome \<Rightarrow> nat option \<Rightarrow> jsstring \<Rightarrow> jsstring \<Rightarrow> ('a view_state_scheme, unit) io" where
  "table_update oc key newTitle newDescription =
     (\<lambda>s. case oc of
             Rejects \<Rightarrow> (Inl StoreFailure, calling (Update key newTitle newDescription) s)
           | Resolves \<Rightarrow>
               (case dexie_update (db s) key newTitle newDescription of
                  Inl e \<Rightarrow> (Inl e, calling (Update key newTitle newDescription) s)
                | Inr d \<Rightarrow> (Inr (), calling (Update key newTitle newDescription) (s\<lparr>db := d\<rparr>))))"

definition table_delete :: "outcome \<Rightarrow> nat \<Rightarrow> ('a view_state_scheme, unit) io" where
  "table_delete oc k =
     (\<lambda>s. case oc of
             Rejects \<Rightarrow> (Inl StoreFailure, calling (Delete k) s)
           | Resolves \<Rightarrow> (Inr (), calling (Delete k) (s\<lparr>db := dexie_delete (db s) k\<rparr>)))"

text \<open>
  The texts shown to the user, by the place that shows them: the load failed; the title
  is empty; a task was updated, added or deleted, or that failed; and the question of
  the confirmation window.
\<close>

datatype message =
    LoadFailed
  | TitleEmpty
  | UpdateDone
  | UpdateFailed
  | AddDone
  | AddFailed
  | DeleteDone
  | DeleteFailed
  | ConfirmDeleteQuestion

section \<open>The page with notifications\<close>

datatype ntype = NSuccess | NError

record notification =
  nid :: nat
  message :: message
  ntype :: ntype

record app = view_state +
  notifications :: "notification list"
  notificationIdCounter :: nat

text \<open>
  \<open>addNotification\<close> appends the notification under the next id. The timer it starts
  fires two seconds later, as a step of its own: \<open>expireNotification\<close>.
\<close>

definition addNotification :: "message \<Rightarrow> ntype \<Rightarrow> (app, unit) io" where
  "addNotification msg ty =
     modify_io (\<lambda>s. s\<lparr>notifications :=
                         notifications s @ [\<lparr>nid = notificationIdCounter s, message = msg, ntype = ty\<rparr>],
                       notificationIdCounter := Suc (notificationIdCounter s)\<rparr>)"

definition expireNotification :: "nat \<Rightarrow> (app, unit) io" where
  "expireNotification i = modify_io (\<lambda>s. s\<lparr>notifications := filter (\<lambda>n. nid n \<noteq> i) (notifications s)\<rparr>)"

definition loadTasks :: "outcome \<Rightarrow> (app, unit) io" where
  "loadTasks oc =
     block
      [modify_io (\<lambda>s. s\<lparr>isLoading := True\<rparr>),
       try_catch_finally
         (bind_io (table_toArray oc) (\<lambda>allTasks. modify_io (\<lambda>s. s\<lparr>tasks := allTasks\<rparr>)))
         (\<lambda>error. addNotification LoadFailed NError)
         (modify_io (\<lambda>s. s\<lparr>isLoading := False\<rparr>))]"

text \<open>
  \<open>handleSubmit\<close>: the first argument is the fate of the write (\<open>update\<close> or \<open>add\<close>), the
  second the fate of the \<open>toArray\<close> of the reload.
\<close>

definition handleSubmit :: "outcome \<Rightarrow> outcome \<Rightarrow> (app, unit) io" where
  "handleSubmit oc_write oc_load =
     (\<lambda>s. if trim (newTaskTitle s) = [] then addNotification TitleEmpty NError s
           else
             block
              [case editingTask s of
                 Some e \<Rightarrow>
                   try_catch_finally
                     (block
                       [table_update oc_write (task_id e)
                          (trim (newTaskTitle s)) (trim (newTaskDescription s)),
                        addNotification UpdateDone NSuccess])
                     (\<lambda>error. addNotification UpdateFailed NError)
                     (modify_io (\<lambda>s. s\<lparr>editingTask := None\<rparr>))
               | None \<Rightarrow>
                   try_catch
                     (block
                       [discard
                          (table_add oc_write
                             \<lparr>task_id = None,
                              title = trim (newTaskTitle s),
                              description = Some (trim (newTaskDescription s)),
                              status = Active\<rparr>),
                        addNotification AddDone NSuccess])
                     (\<lambda>error. addNotification AddFailed NError),
               modify_io (\<lambda>s. s\<lparr>newTaskTitle := []\<rparr>),
               modify_io (\<lambda>s. s\<lparr>newTaskDescription := []\<rparr>),
               loadTasks oc_load] s)"

text \<open>\<open>task.description || ''\<close> is the description, or the empty string when there is none.\<close>

definition editTask :: "task \<Rightarrow> (app, unit) io" where
  "editTask t =
     modify_io (\<lambda>s. s\<lparr>editingTask := Some t,
                       newTaskTitle := title t,
                       newTaskDescription := (case description t of None \<Rightarrow> [] | Some d \<Rightarrow> d)\<rparr>)"

text \<open>
  The two inputs of the form are bound to \<open>newTaskTitle\<close> and \<open>newTaskDescription\<close>:
  typing assigns them.
\<close>

definition typeInputs :: "jsstring \<Rightarrow> jsstring \<Rightarrow> 'a view_state_scheme \<Rightarrow> 'a view_state_scheme" where
  "typeInputs t d s = s\<lparr>newTaskTitle := t, newTaskDescription := d\<rparr>"

text \<open>
  \<open>deleteTask\<close>: the first argument is the fate of the \<open>delete\<close>, the second the fate of
  the \<open>toArray\<close> of the reload.
\<close>

definition deleteTask :: "outcome \<Rightarrow> outcome \<Rightarrow> nat option \<Rightarrow> (app, unit) io" where
  "deleteTask oc_delete oc_load ident =
     (case ident of
        None \<Rightarrow> return_io ()
      | Some k \<Rightarrow>
          try_catch
            (block
              [table_delete oc_delete k,
               addNotification DeleteDone NSuccess,
               loadTasks oc_load])
            (\<lambda>error. addNotification DeleteFailed NError))"

definition onMount :: "outcome \<Rightarrow> (app, unit) io" where
  "onMount oc = loadTasks oc"

text \<open>The component as the script leaves it before it is mounted, on an opened database.\<close>

definition initial_app :: "database \<Rightarrow> app" where
  "initial_app d =
     \<lparr>db = d, tasks = [], newTaskTitle = [], newTaskDescription = [], editingTask = None,
      searchQuery = [], isLoading = True, dbcalls = [], loadingShown = [],
      notifications = [], notificationIdCounter = 0\<rparr>"

text \<open>
  The first run in a browser that holds no database yet: the database is created and
  populated, the component is mounted and its load succeeds.
\<close>

definition first_run :: app where
  "first_run =
     (case dexie_open None of
        Inl e \<Rightarrow> initial_app empty_database
      | Inr d \<Rightarrow> snd (onMount Resolves (initial_app d)))"

section \<open>The page with the confirmation window\<close>

text \<open>
  The variant of the page that reports through a modal window and asks before it
  deletes. \<open>confirmAction\<close> holds a function in the program; the only function ever
  stored there is the one \<open>deleteTask\<close> builds, so it is kept as the id that function
  has captured.
\<close>

datatype action = DeleteConfirmed nat

record modal_app = view_state +
  showModal :: bool
  modalMessage :: "message option"
  isConfirmModal :: bool
  confirmAction :: "action option"

definition showAlert :: "message \<Rightarrow> (modal_app, unit) io" where
  "showAlert msg =
     modify_io (\<lambda>s. s\<lparr>modalMessage := Some msg, isConfirmModal := False, showModal := True\<rparr>)"

definition showConfirm :: "message \<Rightarrow> action \<Rightarrow> (modal_app, unit) io" where
  "showConfirm msg act =
     modify_io (\<lambda>s. s\<lparr>modalMessage := Some msg, isConfirmModal := True,
                       confirmAction := Some act, showModal := True\<rparr>)"

definition closeModal :: "(modal_app, unit) io" where
  "closeModal =
     modify_io (\<lambda>s. s\<lparr>showModal := False, modalMessage := None, isConfirmModal := False,
                       confirmAction := None\<rparr>)"

definition loadTasks_modal :: "outcome \<Rightarrow> (modal_app, unit) io" where
  "loadTasks_modal oc =
     block
      [modify_io (\<lambda>s. s\<lparr>isLoading := True\<rparr>),
       try_catch_finally
         (bind_io (table_toArray oc) (\<lambda>allTasks. modify_io (\<lambda>s. s\<lparr>tasks := allTasks\<rparr>)))
         (\<lambda>error. showAlert LoadFailed)
         (modify_io (\<lambda>s. s\<lparr>isLoading := False\<rparr>))]"

text \<open>The function that \<open>deleteTask\<close> hands to \<open>showConfirm\<close>, for the id it has captured.\<close>

fun run_action :: "outcome \<Rightarrow> outcome \<Rightarrow> action \<Rightarrow> (modal_app, unit) io" where
  "run_action oc_delete oc_load (DeleteConfirmed k) =
     try_catch
       (block
         [table_delete oc_delete k,
          showAlert DeleteDone,
          loadTasks_modal oc_load])
       (\<lambda>error. showAlert DeleteFailed)"

definition deleteTask_modal :: "nat option \<Rightarrow> (modal_app, unit) io" where
  "deleteTask_modal ident =
     (case ident of
        None \<Rightarrow> return_io ()
      | Some k \<Rightarrow> showConfirm ConfirmDeleteQuestion (DeleteConfirmed k))"

text \<open>
  \<open>handleConfirm\<close> starts the stored function without awaiting it and closes the window:
  the function has issued its \<open>delete\<close> and is suspended when \<open>closeModal\<close> runs, and
  what it shows comes after. The window is therefore closed first here.
\<close>

definition handleConfirm :: "outcome \<Rightarrow> outcome \<Rightarrow> (modal_app, unit) io" where
  "handleConfirm oc_delete oc_load =
     (\<lambda>s. case confirmAction s of
             None \<Rightarrow> closeModal s
           | Some act \<Rightarrow> block [closeModal, run_action oc_delete oc_load act] s)"

section \<open>Well-formed tables\<close>

text \<open>
  Every row has a key, the keys increase along the rows, and the generator is beyond all
  of them.
\<close>

fun keysBelow :: "nat \<Rightarrow> task list \<Rightarrow> bool" where
  "keysBelow n [] = True"
| "keysBelow n (r # rs) =
     (case task_id r of None \<Rightarrow> False | Some k \<Rightarrow> k < n \<and> keysBelow n rs)"

fun keysAscending :: "task list \<Rightarrow> bool" where
  "keysAscending [] = True"
| "keysAscending (r # rs) =
     (case task_id r of
        None \<Rightarrow> False
      | Some k \<Rightarrow> list_all (\<lambda>r'. case task_id r' of None \<Rightarrow> False | Some j \<Rightarrow> k < j) rs
                 \<and> keysAscending rs)"

definition wf_database :: "database \<Rightarrow> bool" where
  "wf_database d \<longleftrightarrow> keysBelow (nextId d) (rows d) \<and> keysAscending (rows d) \<and> 0 < nextId d"

section \<open>Facts about the strings\<close>

lemma startsWith_prefix: "startsWith s q \<longleftrightarrow> prefix q s"
  by (induction s q rule: startsWith.induct) auto

lemma str_includes_sublist: "str_includes s q \<longleftrightarrow> sublist q s"
  by (induction s) (auto simp: startsWith_prefix sublist_Cons_right)

lemma dropWhile_all: "(\<forall>x \<in> set (dropWhile P s). P x) \<longleftrightarrow> (\<forall>x \<in> set s. P x)"
  by (induction s) auto

lemma trim_empty_iff: "trim s = [] \<longleftrightarrow> (\<forall>c \<in> set s. isWhiteSpace c)"
  by (simp add: trim_def dropWhile_eq_Nil_conv dropWhile_all)

lemma toLowerCase_Nil: "toLowerCase [] = []"
  by (simp add: toLowerCase_def)

text \<open>
  With a lower-casing that keeps the empty string empty, the test of the filter is the
  plain one: the query occurs in the title, or there is a description and the query
  occurs in it. An empty description cannot hold a query that is not empty.
\<close>

lemma matchesQuery_iff:
  assumes "lc [] = []" and "lq \<noteq> []"
  shows "matchesQuery lc lq t \<longleftrightarrow>
           sublist lq (lc (title t)) \<or> (\<exists>d. description t = Some d \<and> sublist lq (lc d))"
proof (cases "description t")
  case None
  then show ?thesis by (simp add: matchesQuery_def str_includes_sublist)
next
  case (Some d)
  have "d = [] \<Longrightarrow> \<not> sublist lq (lc d)" using assms by simp
  with Some show ?thesis by (auto simp: matchesQuery_def str_includes_sublist)
qed

section \<open>Facts about the table\<close>

lemma keysBelow_iff: "keysBelow n rs \<longleftrightarrow> (\<forall>r \<in> set rs. \<exists>k. task_id r = Some k \<and> k < n)"
  by (induction rs) (auto split: option.splits)

lemma keysAscending_snoc:
  "keysBelow n rs \<Longrightarrow> keysAscending rs \<Longrightarrow> task_id t = Some n \<Longrightarrow> keysAscending (rs @ [t])"
  by (induction rs) (auto split: option.splits simp: keysBelow_iff list_all_iff)

lemma set_insertByKey: "set (insertByKey k t rs) = insert t (set rs)"
  by (induction rs) (auto split: option.splits)

lemma keysAscending_insertByKey:
  "keysAscending rs \<Longrightarrow> task_id t = Some k \<Longrightarrow> \<not> list_ex (\<lambda>r. task_id r = Some k) rs \<Longrightarrow>
   keysAscending (insertByKey k t rs)"
  by (induction rs) (auto split: option.splits simp: list_all_iff list_ex_iff set_insertByKey)

lemma keysAscending_map:
  "\<forall>r \<in> set rs. task_id (f r) = task_id r \<Longrightarrow> keysAscending rs \<Longrightarrow> keysAscending (map f rs)"
  by (induction rs) (auto split: option.splits simp: list_all_iff)

lemma keysAscending_filter: "keysAscending rs \<Longrightarrow> keysAscending (filter P rs)"
  by (induction rs) (auto split: option.splits simp: list_all_iff)

text \<open>Every operation on the table keeps it well formed.\<close>

lemma wf_empty_database: "wf_database empty_database"
  by (simp add: wf_database_def empty_database_def)

lemma wf_dexie_add:
  assumes wf: "wf_database d" and add: "dexie_add d t = Inr (d', k)"
  shows "wf_database d'"
proof (cases "task_id t")
  case None
  with add have d': "d' = \<lparr>rows = rows d @ [t\<lparr>task_id := Some (nextId d)\<rparr>], nextId = Suc (nextId d)\<rparr>"
    by (auto simp: dexie_add_def)
  from wf have below: "keysBelow (nextId d) (rows d)" and asc: "keysAscending (rows d)"
    by (simp_all add: wf_database_def)
  have "keysBelow (Suc (nextId d)) (rows d @ [t\<lparr>task_id := Some (nextId d)\<rparr>])"
    using below by (auto simp: keysBelow_iff less_Suc_eq)
  moreover have "keysAscending (rows d @ [t\<lparr>task_id := Some (nextId d)\<rparr>])"
    using below asc by (rule keysAscending_snoc) simp
  ultimately show ?thesis by (simp add: d' wf_database_def)
next
  case (Some j)
  with add have free: "\<not> hasKey d j"
    and d': "d' = \<lparr>rows = insertByKey j t (rows d), nextId = max (nextId d) (Suc j)\<rparr>"
    by (auto simp: dexie_add_def split: if_splits)
  from wf have below: "keysBelow (nextId d) (rows d)" and asc: "keysAscending (rows d)"
    by (simp_all add: wf_database_def)
  have "keysBelow (max (nextId d) (Suc j)) (insertByKey j t (rows d))"
    using below Some by (auto simp: keysBelow_iff set_insertByKey less_max_iff_disj)
  moreover have "keysAscending (insertByKey j t (rows d))"
    using asc Some free by (simp add: keysAscending_insertByKey hasKey_def)
  ultimately show ?thesis by (simp add: d' wf_database_def)
qed

lemma wf_dexie_bulkAdd: "wf_database d \<Longrightarrow> dexie_bulkAdd d ts = Inr d' \<Longrightarrow> wf_database d'"
  by (induction ts arbitrary: d) (auto split: sum.splits dest: wf_dexie_add)

lemma wf_dexie_update:
  assumes wf: "wf_database d" and upd: "dexie_update d key a b = Inr d'"
  shows "wf_database d'"
proof -
  from upd obtain k where d':
    "d' = d\<lparr>rows := map (\<lambda>r. if task_id r = Some k
                              then r\<lparr>title := a, description := Some b\<rparr> else r) (rows d)\<rparr>"
    by (auto simp: dexie_update_def split: option.splits)
  from wf show ?thesis
    by (auto simp: d' wf_database_def keysBelow_iff intro!: keysAscending_map)
qed

lemma wf_dexie_delete: "wf_database d \<Longrightarrow> wf_database (dexie_delete d k)"
  by (auto simp: dexie_delete_def wf_database_def keysBelow_iff intro: keysAscending_filter)

lemma wf_dexie_open:
  "(case stored of None \<Rightarrow> True | Some d \<Rightarrow> wf_database d) \<Longrightarrow> dexie_open stored = Inr d' \<Longrightarrow>
   wf_database d'"
  by (auto simp: dexie_open_def on_populate_def split: option.splits
      intro: wf_dexie_bulkAdd wf_empty_database)

section \<open>Facts about the handlers\<close>

lemmas io_defs = return_io_def bind_io_def modify_io_def discard_def try_catch_def
  try_finally_def try_catch_finally_def calling_def table_toArray_def table_add_def
  table_update_def table_delete_def addNotification_def

lemma loadTasks_run:
  "loadTasks oc s =
     (Inr (),
      case oc of
        Resolves \<Rightarrow>
          s\<lparr>tasks := rows (db s), isLoading := False, dbcalls := dbcalls s @ [ToArray],
            loadingShown := loadingShown s @ [True]\<rparr>
      | Rejects \<Rightarrow>
          s\<lparr>isLoading := False, dbcalls := dbcalls s @ [ToArray],
            loadingShown := loadingShown s @ [True],
            notifications := notifications s @
              [\<lparr>nid = notificationIdCounter s, message = LoadFailed, ntype = NError\<rparr>],
            notificationIdCounter := Suc (notificationIdCounter s)\<rparr>)"
  by (cases oc) (simp_all add: loadTasks_def io_defs)

lemma first_run_tasks:
  "tasks first_run =
     [(seedTasks ! 0)\<lparr>task_id := Some 1\<rparr>, (seedTasks ! 1)\<lparr>task_id := Some 2\<rparr>,
      (seedTasks ! 2)\<lparr>task_id := Some 3\<rparr>]"
  by (simp add: first_run_def dexie_open_def on_populate_def seedTasks_def dexie_add_def
      empty_database_def onMount_def loadTasks_def io_defs initial_app_def)

lemma first_run_fields:
  "rows (db first_run) = tasks first_run"
  "nextId (db first_run) = 4"
  "newTaskTitle first_run = []"
  "newTaskDescription first_run = []"
  "editingTask first_run = None"
  "isLoading first_run = False"
  "dbcalls first_run = [ToArray]"
  "loadingShown first_run = [True]"
  "notifications first_run = []"
  "notificationIdCounter first_run = 0"
  by (simp_all add: first_run_def dexie_open_def on_populate_def seedTasks_def dexie_add_def
      empty_database_def onMount_def loadTasks_def io_defs initial_app_def)

lemma wf_first_run: "wf_database (db first_run)"
  by (simp add: wf_database_def first_run_fields first_run_tasks seedTasks_def)

lemma trim_examples:
  "trim [] = []"
  "trim [0x20, 0x41, 0x20] = [0x41]"
  "trim [0x20, 0x09] = []"
  "trim [0x42] = [0x42]"
  by (simp_all add: trim_def isWhiteSpace_def)

text \<open>
  The handlers keep the table well formed, so every state reached from a first run,
  or from a well-formed table, has a well-formed table.
\<close>

lemma wf_loadTasks: "wf_database (db s) \<Longrightarrow> wf_database (db (snd (loadTasks oc s)))"
  by (cases oc) (simp_all add: loadTasks_run)

lemma wf_handleSubmit:
  assumes "wf_database (db s)"
  shows "wf_database (db (snd (handleSubmit oc_write oc_load s)))"
proof (cases "trim (newTaskTitle s) = []")
  case True
  with assms show ?thesis by (simp add: handleSubmit_def io_defs)
next
  case False
  show ?thesis
  proof (cases "editingTask s")
    case None
    have "wf_database d'"
      if "dexie_add (db s) t = Inr (d', k)" for t d' k
      using assms that by (rule wf_dexie_add)
    with False None assms show ?thesis
      by (cases oc_write; cases oc_load)
         (auto simp: handleSubmit_def loadTasks_run io_defs split: sum.splits)
  next
    case (Some e)
    have "wf_database d'"
      if "dexie_update (db s) key a b = Inr d'" for key a b d'
      using assms that by (rule wf_dexie_update)
    with False Some assms show ?thesis
      by (cases oc_write; cases oc_load)
         (auto simp: handleSubmit_def loadTasks_run io_defs split: sum.splits)
  qed
qed

lemma wf_deleteTask:
  "wf_database (db s) \<Longrightarrow> wf_database (db (snd (deleteTask oc_delete oc_load ident s)))"
  by (cases ident; cases oc_delete; cases oc_load)
     (simp_all add: deleteTask_def loadTasks_run io_defs wf_dexie_delete)

section \<open>The filtered view\<close>

text \<open>
  Claim C1. For every snapshot and every query, the filtered view is computed from the
  query lower-cased and trimmed. When that is empty, the view is the snapshot itself.
  Otherwise the view keeps exactly the tasks in whose lower-cased title the query occurs,
  or that have a description in whose lower-cased form the query occurs, and it keeps
  them in the order of the snapshot. The lower-casing is any function that keeps the
  empty string empty. On the three tasks of the first run, the query \<open>otchet\<close> (in
  Cyrillic) yields the second task alone, \<open>Zavershit' otchet\<close>.
\<close>

theorem filteredTasks_meets_spec:
  assumes "lc [] = []"
  shows "(trim (lc q) = [] \<longrightarrow> filteredTasks lc ts q = ts) \<and>
         (trim (lc q) \<noteq> [] \<longrightarrow>
            filteredTasks lc ts q =
              filter (\<lambda>t. sublist (trim (lc q)) (lc (title t)) \<or>
                          (\<exists>d. description t = Some d \<and> sublist (trim (lc q)) (lc d))) ts) \<and>
         subseq (filteredTasks lc ts q) ts \<and>
         filteredTasks toLowerCase (tasks first_run) [0x43E, 0x442, 0x447, 0x435, 0x442] =
           [(seedTasks ! 1)\<lparr>task_id := Some 2\<rparr>]"
proof -
  have empty: "trim (lc q) = [] \<Longrightarrow> filteredTasks lc ts q = ts"
    by (simp add: filteredTasks_def)
  have kept: "filteredTasks lc ts q =
              filter (\<lambda>t. sublist (trim (lc q)) (lc (title t)) \<or>
                          (\<exists>d. description t = Some d \<and> sublist (trim (lc q)) (lc d))) ts"
    if "trim (lc q) \<noteq> []"
    using that assms by (simp add: filteredTasks_def Let_def matchesQuery_iff cong: filter_cong)
  have order: "subseq (filteredTasks lc ts q) ts"
    by (simp add: filteredTasks_def Let_def)
  have scenario:
    "filteredTasks toLowerCase (tasks first_run) [0x43E, 0x442, 0x447, 0x435, 0x442] =
       [(seedTasks ! 1)\<lparr>task_id := Some 2\<rparr>]"
    by (simp add: first_run_tasks filteredTasks_def matchesQuery_def seedTasks_def
        toLowerCase_def lowerUnit_def trim_def isWhiteSpace_def)
  from empty kept order scenario show ?thesis by blast
qed

text \<open>
  The theorem at work on the first run: a query of one space shows all three tasks, and
  the query \<open>KU\<close> (in Cyrillic capitals, after a space) is looked for as \<open>ku\<close>.
\<close>

theorem filteredTasks_meets_spec_witness:
  "toLowerCase [] = [] \<and>
   trim (toLowerCase [0x20]) = [] \<and>
   filteredTasks toLowerCase (tasks first_run) [0x20] = tasks first_run \<and>
   trim (toLowerCase [0x20, 0x41A, 0x423]) = [0x43A, 0x443] \<and>
   filteredTasks toLowerCase (tasks first_run) [0x20, 0x41A, 0x423] =
     filter (\<lambda>t. sublist [0x43A, 0x443] (toLowerCase (title t)) \<or>
                 (\<exists>d. description t = Some d \<and> sublist [0x43A, 0x443] (toLowerCase d)))
       (tasks first_run)"
proof -
  have blank: "trim (toLowerCase [0x20]) = []"
    by (simp add: toLowerCase_def lowerUnit_def trim_def isWhiteSpace_def)
  have ku: "trim (toLowerCase [0x20, 0x41A, 0x423]) = [0x43A, 0x443]"
    by (simp add: toLowerCase_def lowerUnit_def trim_def isWhiteSpace_def)
  show ?thesis
    using blank ku
      filteredTasks_meets_spec
        [where lc = toLowerCase and q = "[0x20]" and ts = "tasks first_run", OF toLowerCase_Nil]
      filteredTasks_meets_spec
        [where lc = toLowerCase and q = "[0x20, 0x41A, 0x423]" and ts = "tasks first_run",
         OF toLowerCase_Nil]
    by (simp add: toLowerCase_Nil)
qed

section \<open>Submitting the form\<close>

text \<open>
  Claim C2. For every title whose trimmed form is not empty, submitting while no task is
  being edited, with the insert and the reload fulfilled, leaves the table and the
  reloaded snapshot equal to the rows before plus one record at the end: its title is
  the trimmed title, its description the trimmed description (the empty string when
  the input was empty) and its status \<open>active\<close>. Its key is the next generated one, so in
  a well-formed table the record is none of the rows before. A further reload shows
  the same.
\<close>

theorem handleSubmit_adds_one_task:
  assumes "trim (newTaskTitle s) \<noteq> []" and "editingTask s = None"
  shows "(let s' = snd (handleSubmit Resolves Resolves s);
              new = \<lparr>task_id = Some (nextId (db s)), title = trim (newTaskTitle s),
                     description = Some (trim (newTaskDescription s)), status = Active\<rparr>
          in rows (db s') = rows (db s) @ [new] \<and>
             tasks s' = rows (db s) @ [new] \<and>
             tasks (snd (loadTasks Resolves s')) = rows (db s) @ [new] \<and>
             (newTaskDescription s = [] \<longrightarrow> description new = Some []) \<and>
             (wf_database (db s) \<longrightarrow> new \<notin> set (rows (db s))))"
proof -
  have fresh: "\<lparr>task_id = Some (nextId (db s)), title = a, description = b, status = c\<rparr>
                 \<notin> set (rows (db s))" if "wf_database (db s)" for a b c
    using that by (auto simp: wf_database_def keysBelow_iff)
  show ?thesis
    using assms fresh
    by (simp add: Let_def handleSubmit_def loadTasks_run io_defs dexie_add_def trim_examples)
qed

text \<open>On the first run, the title \<open>A\<close> between two spaces and no description add task 4.\<close>

theorem handleSubmit_adds_one_task_witness:
  "trim (newTaskTitle (typeInputs [0x20, 0x41, 0x20] [] first_run)) \<noteq> [] \<and>
   editingTask (typeInputs [0x20, 0x41, 0x20] [] first_run) = None \<and>
   newTaskDescription (typeInputs [0x20, 0x41, 0x20] [] first_run) = [] \<and>
   wf_database (db (typeInputs [0x20, 0x41, 0x20] [] first_run)) \<and>
   tasks (snd (handleSubmit Resolves Resolves (typeInputs [0x20, 0x41, 0x20] [] first_run))) =
     tasks first_run @
       [\<lparr>task_id = Some 4, title = [0x41], description = Some [], status = Active\<rparr>] \<and>
   \<lparr>task_id = Some 4, title = [0x41], description = Some [], status = Active\<rparr>
     \<notin> set (tasks first_run)"
proof -
  have title: "trim (newTaskTitle (typeInputs [0x20, 0x41, 0x20] [] first_run)) \<noteq> []"
    by (simp add: typeInputs_def trim_examples)
  have editing: "editingTask (typeInputs [0x20, 0x41, 0x20] [] first_run) = None"
    by (simp add: typeInputs_def first_run_fields)
  have wf: "wf_database (db (typeInputs [0x20, 0x41, 0x20] [] first_run))"
    by (simp add: typeInputs_def wf_first_run)
  show ?thesis
    using title editing wf handleSubmit_adds_one_task [OF title editing]
    by (simp add: Let_def typeInputs_def first_run_fields trim_examples)
qed

text \<open>
  Claim C3. For every title that is empty or consists of white space only, submitting
  makes no call on the table, hence neither a write nor the \<open>toArray\<close> of a reload; the
  table, the snapshot and the loading flag stay as they are, the handler does not throw,
  and exactly one notification is added: the error that the title must not be empty.
\<close>

theorem handleSubmit_blank_title_rejected:
  assumes "\<forall>c \<in> set (newTaskTitle s). isWhiteSpace c"
  shows "(let s' = snd (handleSubmit oc_write oc_load s)
          in fst (handleSubmit oc_write oc_load s) = Inr () \<and>
             db s' = db s \<and> dbcalls s' = dbcalls s \<and> tasks s' = tasks s \<and>
             isLoading s' = isLoading s \<and>
             notifications s' =
               notifications s @
                 [\<lparr>nid = notificationIdCounter s, message = TitleEmpty, ntype = NError\<rparr>])"
proof -
  from assms have "trim (newTaskTitle s) = []" by (simp add: trim_empty_iff)
  then show ?thesis by (simp add: handleSubmit_def addNotification_def modify_io_def)
qed

text \<open>On the first run, a title of a space and a tab is refused, whatever the description.\<close>

theorem handleSubmit_blank_title_rejected_witness:
  "newTaskTitle (typeInputs [0x20, 0x09] [0x42] first_run) = [0x20, 0x09] \<and>
   isWhiteSpace 0x20 \<and> isWhiteSpace 0x09 \<and>
   fst (handleSubmit Resolves Resolves (typeInputs [0x20, 0x09] [0x42] first_run)) = Inr () \<and>
   db (snd (handleSubmit Resolves Resolves (typeInputs [0x20, 0x09] [0x42] first_run))) =
     db first_run \<and>
   dbcalls (snd (handleSubmit Resolves Resolves (typeInputs [0x20, 0x09] [0x42] first_run))) =
     [ToArray] \<and>
   tasks (snd (handleSubmit Resolves Resolves (typeInputs [0x20, 0x09] [0x42] first_run))) =
     tasks first_run \<and>
   notifications (snd (handleSubmit Resolves Resolves (typeInputs [0x20, 0x09] [0x42] first_run))) =
     [\<lparr>nid = 0, message = TitleEmpty, ntype = NError\<rparr>]"
proof -
  have blank: "\<forall>c \<in> set (newTaskTitle (typeInputs [0x20, 0x09] [0x42] first_run)). isWhiteSpace c"
    by (simp add: typeInputs_def isWhiteSpace_def)
  have space: "isWhiteSpace 0x20" and tab: "isWhiteSpace 0x09"
    by (simp_all add: isWhiteSpace_def)
  show ?thesis
    using space tab handleSubmit_blank_title_rejected [OF blank, of Resolves Resolves]
    by (simp add: Let_def typeInputs_def first_run_fields)
qed

text \<open>
  Claim C4. For every task being edited, submitting with a title whose trimmed form is
  not empty changes, in the table, nothing but the title and the description of the rows
  that carry the key of that task, and those only when the update is fulfilled and the
  task has a key. The keys and the statuses of all rows, their number and order, and
  the key generator are as before; every row with another key is as before.
\<close>

theorem handleSubmit_edit_frame:
  assumes "trim (newTaskTitle s) \<noteq> []" and "editingTask s = Some e"
  shows "(let s' = snd (handleSubmit oc_write oc_load s)
          in rows (db s') =
               map (\<lambda>r. if oc_write = Resolves \<and> task_id e \<noteq> None \<and> task_id r = task_id e
                        then r\<lparr>title := trim (newTaskTitle s),
                               description := Some (trim (newTaskDescription s))\<rparr>
                        else r) (rows (db s)) \<and>
             map task_id (rows (db s')) = map task_id (rows (db s)) \<and>
             map status (rows (db s')) = map status (rows (db s)) \<and>
             nextId (db s') = nextId (db s))"
  using assms
  by (cases oc_write; cases oc_load; cases "task_id e")
     (simp_all add: Let_def handleSubmit_def loadTasks_run io_defs dexie_update_def
        comp_def cong: map_cong)

text \<open>
  On the first run, the second task is opened for editing and saved under the title \<open>B\<close>
  with an empty description: it keeps key 2 and status \<open>active\<close>, the others are intact.
\<close>

theorem handleSubmit_edit_frame_witness:
  "trim (newTaskTitle (typeInputs [0x42] [] (snd (editTask (tasks first_run ! 1) first_run)))) \<noteq> [] \<and>
   editingTask (typeInputs [0x42] [] (snd (editTask (tasks first_run ! 1) first_run))) =
     Some (tasks first_run ! 1) \<and>
   rows (db (snd (handleSubmit Resolves Resolves
                   (typeInputs [0x42] [] (snd (editTask (tasks first_run ! 1) first_run)))))) =
     [(seedTasks ! 0)\<lparr>task_id := Some 1\<rparr>,
      (seedTasks ! 1)\<lparr>task_id := Some 2, title := [0x42], description := Some []\<rparr>,
      (seedTasks ! 2)\<lparr>task_id := Some 3\<rparr>] \<and>
   map status (rows (db (snd (handleSubmit Resolves Resolves
                   (typeInputs [0x42] [] (snd (editTask (tasks first_run ! 1) first_run))))))) =
     [Active, Active, Completed]"
proof -
  have title:
    "trim (newTaskTitle (typeInputs [0x42] [] (snd (editTask (tasks first_run ! 1) first_run)))) \<noteq> []"
    by (simp add: typeInputs_def trim_examples)
  have editing:
    "editingTask (typeInputs [0x42] [] (snd (editTask (tasks first_run ! 1) first_run))) =
       Some (tasks first_run ! 1)"
    by (simp add: typeInputs_def editTask_def modify_io_def)
  show ?thesis
    using title editing handleSubmit_edit_frame [OF title editing, of Resolves Resolves]
    by (simp add: Let_def typeInputs_def editTask_def modify_io_def first_run_fields
        first_run_tasks trim_examples seedTasks_def)
qed

text \<open>
  Claim C8. For every submission with a title whose trimmed form is not empty, whether
  the insert or update and the reload are fulfilled or rejected, after the submission
  no task is being edited and both inputs are the empty string.
\<close>

theorem handleSubmit_resets_form:
  assumes "trim (newTaskTitle s) \<noteq> []"
  shows "(let s' = snd (handleSubmit oc_write oc_load s)
          in editingTask s' = None \<and> newTaskTitle s' = [] \<and> newTaskDescription s' = [])"
  using assms
  by (cases oc_write; cases oc_load; cases "editingTask s")
     (simp_all add: Let_def handleSubmit_def loadTasks_run io_defs dexie_add_def dexie_update_def
        split: option.splits)

text \<open>On the first run, an edit of the second task whose update is rejected clears the form.\<close>

theorem handleSubmit_resets_form_witness:
  "trim (newTaskTitle (typeInputs [0x42] [0x42] (snd (editTask (tasks first_run ! 1) first_run)))) \<noteq> [] \<and>
   editingTask (typeInputs [0x42] [0x42] (snd (editTask (tasks first_run ! 1) first_run))) \<noteq> None \<and>
   editingTask (snd (handleSubmit Rejects Resolves
      (typeInputs [0x42] [0x42] (snd (editTask (tasks first_run ! 1) first_run))))) = None \<and>
   newTaskTitle (snd (handleSubmit Rejects Resolves
      (typeInputs [0x42] [0x42] (snd (editTask (tasks first_run ! 1) first_run))))) = [] \<and>
   newTaskDescription (snd (handleSubmit Rejects Resolves
      (typeInputs [0x42] [0x42] (snd (editTask (tasks first_run ! 1) first_run))))) = []"
proof -
  have title:
    "trim (newTaskTitle (typeInputs [0x42] [0x42] (snd (editTask (tasks first_run ! 1) first_run)))) \<noteq> []"
    by (simp add: typeInputs_def trim_examples)
  show ?thesis
    using title handleSubmit_resets_form [OF title, of Rejects Resolves]
    by (simp add: Let_def typeInputs_def editTask_def modify_io_def)
qed

section \<open>The first initialisation\<close>

text \<open>
  Claim C5. When the database is opened for the first time, the \<open>populate\<close> handler stores
  exactly three tasks: \<open>Kupit' produkty\<close> (active), \<open>Zavershit' otchet\<close> (active) and
  \<open>Pozvonit' drugu\<close> (completed), under the keys 1, 2 and 3. The \<open>toArray\<close> that follows
  returns these three in the order they were added, and so does the load of the mounted
  component. Opening a database that exists already leaves it as it is, with whatever
  rows it has: nothing is seeded again.
\<close>

theorem populate_seeds_first_open:
  "(case dexie_open None of
      Inl e \<Rightarrow> False
    | Inr d \<Rightarrow>
        rows d = map2 (\<lambda>k t. t\<lparr>task_id := Some k\<rparr>) [1, 2, 3] seedTasks \<and>
        fst (table_toArray Resolves (initial_app d)) = Inr (rows d) \<and>
        tasks (snd (onMount Resolves (initial_app d))) = rows d) \<and>
   map (\<lambda>t. (title t, status t)) seedTasks =
     [([0x41A, 0x443, 0x43F, 0x438, 0x442, 0x44C, 0x20, 0x43F, 0x440, 0x43E, 0x434, 0x443,
        0x43A, 0x442, 0x44B], Active),
      ([0x417, 0x430, 0x432, 0x435, 0x440, 0x448, 0x438, 0x442, 0x44C, 0x20, 0x43E, 0x442,
        0x447, 0x435, 0x442], Active),
      ([0x41F, 0x43E, 0x437, 0x432, 0x43E, 0x43D, 0x438, 0x442, 0x44C, 0x20, 0x434, 0x440,
        0x443, 0x433, 0x443], Completed)] \<and>
   dexie_open (Some d) = Inr d"
  by (simp add: dexie_open_def on_populate_def seedTasks_def dexie_add_def empty_database_def
      onMount_def loadTasks_run table_toArray_def calling_def initial_app_def)

section \<open>Reloading after a mutation\<close>

text \<open>
  Claim C6 says that the reload follows every mutation, whether the call on the table
  was fulfilled or rejected. For \<open>deleteTask\<close> this is not so: its reload is inside the
  \<open>try\<close> block, after the \<open>delete\<close>. On the first run, a rejected \<open>delete\<close> of task 1 is
  the last call made on the table; no \<open>toArray\<close> follows it, and the snapshot stays.
\<close>

theorem deleteTask_rejected_no_reload:
  "fst (deleteTask Rejects Resolves (Some 1) first_run) = Inr () \<and>
   dbcalls first_run = [ToArray] \<and>
   dbcalls (snd (deleteTask Rejects Resolves (Some 1) first_run)) = [ToArray, Delete 1] \<and>
   tasks (snd (deleteTask Rejects Resolves (Some 1) first_run)) = tasks first_run"
  by (simp add: deleteTask_def io_defs first_run_fields)

text \<open>
  Claim C6, amended. A submission with a title whose trimmed form is not empty makes
  its write (\<open>add\<close> or \<open>update\<close>) and then, whether the write was fulfilled or rejected,
  the \<open>toArray\<close> of the reload. \<open>deleteTask\<close> with an id makes its \<open>delete\<close> and reloads
  only when that was fulfilled; when it was rejected, the error is notified and nothing
  is reloaded. In both handlers the snapshot afterwards is either the one before or, when
  the reload was made and fulfilled, the rows of the table. Deleting never throws, for
  an id in the snapshot or not; a fulfilled \<open>delete\<close> of a key the table does not hold
  leaves the rows as they are and is followed by the reload.
\<close>

theorem reload_after_mutation:
  "(trim (newTaskTitle s) \<noteq> [] \<longrightarrow>
      (let s' = snd (handleSubmit oc_write oc_load s)
       in dbcalls s' =
            dbcalls s @
              [case editingTask s of
                 None \<Rightarrow> Add \<lparr>task_id = None, title = trim (newTaskTitle s),
                              description = Some (trim (newTaskDescription s)), status = Active\<rparr>
               | Some e \<Rightarrow> Update (task_id e) (trim (newTaskTitle s)) (trim (newTaskDescription s)),
               ToArray] \<and>
          tasks s' = (if oc_load = Resolves then rows (db s') else tasks s))) \<and>
   (let s' = snd (deleteTask oc_delete oc_load (Some k) s)
    in fst (deleteTask oc_delete oc_load (Some k) s) = Inr () \<and>
       dbcalls s' = dbcalls s @ (if oc_delete = Resolves then [Delete k, ToArray] else [Delete k]) \<and>
       tasks s' = (if oc_delete = Resolves \<and> oc_load = Resolves then rows (db s') else tasks s) \<and>
       rows (db s') =
         (if oc_delete = Resolves then filter (\<lambda>r. task_id r \<noteq> Some k) (rows (db s))
          else rows (db s)) \<and>
       (\<not> hasKey (db s) k \<longrightarrow> rows (db s') = rows (db s)) \<and>
       (oc_delete = Rejects \<longrightarrow>
          notifications s' =
            notifications s @
              [\<lparr>nid = notificationIdCounter s, message = DeleteFailed, ntype = NError\<rparr>]))"
proof -
  have absent: "filter (\<lambda>r. task_id r \<noteq> Some k) (rows (db s)) = rows (db s)"
    if "\<not> hasKey (db s) k"
    using that by (auto simp: hasKey_def list_ex_iff intro: filter_True)
  have submit: "(let s' = snd (handleSubmit oc_write oc_load s)
       in dbcalls s' =
            dbcalls s @
              [case editingTask s of
                 None \<Rightarrow> Add \<lparr>task_id = None, title = trim (newTaskTitle s),
                              description = Some (trim (newTaskDescription s)), status = Active\<rparr>
               | Some e \<Rightarrow> Update (task_id e) (trim (newTaskTitle s)) (trim (newTaskDescription s)),
               ToArray] \<and>
          tasks s' = (if oc_load = Resolves then rows (db s') else tasks s))"
    if "trim (newTaskTitle s) \<noteq> []"
    using that
    by (cases oc_write; cases oc_load; cases "editingTask s")
       (simp_all add: Let_def handleSubmit_def loadTasks_run io_defs dexie_add_def
          dexie_update_def split: option.splits)
  have delete: "(let s' = snd (deleteTask oc_delete oc_load (Some k) s)
    in fst (deleteTask oc_delete oc_load (Some k) s) = Inr () \<and>
       dbcalls s' = dbcalls s @ (if oc_delete = Resolves then [Delete k, ToArray] else [Delete k]) \<and>
       tasks s' = (if oc_delete = Resolves \<and> oc_load = Resolves then rows (db s') else tasks s) \<and>
       rows (db s') =
         (if oc_delete = Resolves then filter (\<lambda>r. task_id r \<noteq> Some k) (rows (db s))
          else rows (db s)) \<and>
       (\<not> hasKey (db s) k \<longrightarrow> rows (db s') = rows (db s)) \<and>
       (oc_delete = Rejects \<longrightarrow>
          notifications s' =
            notifications s @
              [\<lparr>nid = notificationIdCounter s, message = DeleteFailed, ntype = NError\<rparr>]))"
    using absent
    by (cases oc_delete; cases oc_load)
       (simp_all add: Let_def deleteTask_def loadTasks_run io_defs dexie_delete_def)
  from submit delete show ?thesis by blast
qed

text \<open>
  On the first run: a rejected insert is still followed by the reload; deleting the
  absent key 7 changes no row and reloads; a rejected delete of task 1 is notified.
\<close>

theorem reload_after_mutation_witness:
  "trim (newTaskTitle (typeInputs [0x42] [] first_run)) \<noteq> [] \<and>
   dbcalls (snd (handleSubmit Rejects Resolves (typeInputs [0x42] [] first_run))) =
     [ToArray,
      Add \<lparr>task_id = None, title = [0x42], description = Some [], status = Active\<rparr>,
      ToArray] \<and>
   \<not> hasKey (db (typeInputs [0x42] [] first_run)) 7 \<and>
   fst (deleteTask Resolves Resolves (Some 7) (typeInputs [0x42] [] first_run)) = Inr () \<and>
   dbcalls (snd (deleteTask Resolves Resolves (Some 7) (typeInputs [0x42] [] first_run))) =
     [ToArray, Delete 7, ToArray] \<and>
   rows (db (snd (deleteTask Resolves Resolves (Some 7) (typeInputs [0x42] [] first_run)))) =
     tasks first_run \<and>
   notifications (snd (deleteTask Rejects Resolves (Some 1) first_run)) =
     [\<lparr>nid = 0, message = DeleteFailed, ntype = NError\<rparr>]"
proof -
  have title: "trim (newTaskTitle (typeInputs [0x42] [] first_run)) \<noteq> []"
    by (simp add: typeInputs_def trim_examples)
  have absent: "\<not> hasKey (db (typeInputs [0x42] [] first_run)) 7"
    by (simp add: typeInputs_def hasKey_def first_run_fields first_run_tasks seedTasks_def)
  show ?thesis
    using title absent
      reload_after_mutation [where s = "typeInputs [0x42] [] first_run" and oc_write = Rejects
        and oc_load = Resolves and oc_delete = Resolves and k = 7]
      reload_after_mutation [where s = first_run and oc_write = Rejects
        and oc_load = Resolves and oc_delete = Rejects and k = 1]
    by (auto simp: Let_def typeInputs_def first_run_fields trim_examples)
qed

section \<open>Loading\<close>

text \<open>
  Claim C7. \<open>loadTasks\<close> sets the loading flag and calls \<open>toArray\<close>, once: the call it
  adds to the record of calls is \<open>toArray\<close>, and while that call is pending the flag is
  set, whatever it was before. However the call ends, \<open>loadTasks\<close> completes without
  throwing and with the flag cleared, and it does not touch the table. When the call is
  fulfilled, the snapshot becomes the rows it returned and nothing is notified; when
  it is rejected, the snapshot stays as it was and one error notification, that the load
  failed, is added. Nothing else in the state changes.
\<close>

theorem loadTasks_clears_loading:
  "(let s' = snd (loadTasks oc s)
    in fst (loadTasks oc s) = Inr () \<and>
       loadingShown s' = loadingShown s @ [True] \<and>
       dbcalls s' = dbcalls s @ [ToArray] \<and>
       \<not> isLoading s' \<and>
       db s' = db s \<and>
       (oc = Resolves \<longrightarrow>
          tasks s' = rows (db s) \<and> notifications s' = notifications s \<and>
          s' = s\<lparr>tasks := rows (db s), isLoading := False, dbcalls := dbcalls s @ [ToArray],
                 loadingShown := loadingShown s @ [True]\<rparr>) \<and>
       (oc = Rejects \<longrightarrow>
          tasks s' = tasks s \<and>
          notifications s' =
            notifications s @
              [\<lparr>nid = notificationIdCounter s, message = LoadFailed, ntype = NError\<rparr>] \<and>
          s' = s\<lparr>isLoading := False, dbcalls := dbcalls s @ [ToArray],
                 loadingShown := loadingShown s @ [True],
                 notifications := notifications s @
                   [\<lparr>nid = notificationIdCounter s, message = LoadFailed, ntype = NError\<rparr>],
                 notificationIdCounter := Suc (notificationIdCounter s)\<rparr>))"
  by (cases oc; cases s) (simp_all add: Let_def loadTasks_def io_defs)

text \<open>
  The mount of the first run loads the three tasks and clears the flag. A later load
  starts with the flag cleared: it sets the flag while its call is pending and, the call
  rejected, keeps the three tasks, clears the flag again and notifies the error.
\<close>

theorem loadTasks_clears_loading_witness:
  "isLoading (initial_app (db first_run)) \<and>
   \<not> isLoading (snd (loadTasks Resolves (initial_app (db first_run)))) \<and>
   tasks (snd (loadTasks Resolves (initial_app (db first_run)))) = tasks first_run \<and>
   \<not> isLoading first_run \<and>
   loadingShown first_run = [True] \<and>
   loadingShown (snd (loadTasks Rejects first_run)) = [True, True] \<and>
   \<not> isLoading (snd (loadTasks Rejects first_run)) \<and>
   tasks (snd (loadTasks Rejects first_run)) = tasks first_run \<and>
   notifications (snd (loadTasks Rejects first_run)) =
     [\<lparr>nid = 0, message = LoadFailed, ntype = NError\<rparr>]"
proof -
  have mount:
    "\<not> isLoading (snd (loadTasks Resolves (initial_app (db first_run)))) \<and>
     tasks (snd (loadTasks Resolves (initial_app (db first_run)))) = tasks first_run"
    using loadTasks_clears_loading [of Resolves "initial_app (db first_run)"]
    by (simp add: Let_def initial_app_def first_run_fields)
  have again:
    "loadingShown (snd (loadTasks Rejects first_run)) = [True, True] \<and>
     \<not> isLoading (snd (loadTasks Rejects first_run)) \<and>
     tasks (snd (loadTasks Rejects first_run)) = tasks first_run \<and>
     notifications (snd (loadTasks Rejects first_run)) =
       [\<lparr>nid = 0, message = LoadFailed, ntype = NError\<rparr>]"
    using loadTasks_clears_loading [of Rejects first_run]
    by (simp add: Let_def first_run_fields)
  from mount again show ?thesis
    by (simp add: initial_app_def first_run_fields)
qed

section \<open>No handler throws\<close>

text \<open>
  Claim C9. Whatever the fate of the calls on the table, \<open>loadTasks\<close>, \<open>handleSubmit\<close> and
  \<open>deleteTask\<close> complete without throwing, in every state and for every argument. Each
  rejected call is turned into an error notification: of the load, of the insert or the
  update, of the delete, and of the reload made by \<open>handleSubmit\<close> or \<open>deleteTask\<close>.
\<close>

theorem handlers_catch_store_failures:
  "fst (loadTasks oc s) = Inr () \<and>
   fst (handleSubmit oc_write oc_load s) = Inr () \<and>
   fst (deleteTask oc_delete oc_load ident s) = Inr () \<and>
   (oc = Rejects \<longrightarrow>
      \<lparr>nid = notificationIdCounter s, message = LoadFailed, ntype = NError\<rparr>
        \<in> set (notifications (snd (loadTasks oc s)))) \<and>
   (trim (newTaskTitle s) \<noteq> [] \<and> oc_write = Rejects \<longrightarrow>
      \<lparr>nid = notificationIdCounter s,
        message = (if editingTask s = None then AddFailed else UpdateFailed), ntype = NError\<rparr>
        \<in> set (notifications (snd (handleSubmit oc_write oc_load s)))) \<and>
   (trim (newTaskTitle s) \<noteq> [] \<and> oc_load = Rejects \<longrightarrow>
      \<lparr>nid = Suc (notificationIdCounter s), message = LoadFailed, ntype = NError\<rparr>
        \<in> set (notifications (snd (handleSubmit oc_write oc_load s)))) \<and>
   (oc_delete = Rejects \<longrightarrow>
      \<lparr>nid = notificationIdCounter s, message = DeleteFailed, ntype = NError\<rparr>
        \<in> set (notifications (snd (deleteTask oc_delete oc_load (Some k) s)))) \<and>
   (oc_delete = Resolves \<and> oc_load = Rejects \<longrightarrow>
      \<lparr>nid = Suc (notificationIdCounter s), message = LoadFailed, ntype = NError\<rparr>
        \<in> set (notifications (snd (deleteTask oc_delete oc_load (Some k) s))))"
proof -
  have load: "fst (loadTasks oc s) = Inr ()" by (simp add: loadTasks_run)
  have submit: "fst (handleSubmit oc_write oc_load s) = Inr ()"
    by (cases oc_write; cases "editingTask s")
       (simp_all add: handleSubmit_def loadTasks_run io_defs dexie_add_def split: sum.splits)
  have delete: "fst (deleteTask oc_delete oc_load ident s) = Inr ()"
    by (cases oc_delete; cases ident) (simp_all add: deleteTask_def loadTasks_run io_defs)
  have load_note: "oc = Rejects \<Longrightarrow>
      \<lparr>nid = notificationIdCounter s, message = LoadFailed, ntype = NError\<rparr>
        \<in> set (notifications (snd (loadTasks oc s)))"
    by (simp add: loadTasks_run)
  have write_note: "trim (newTaskTitle s) \<noteq> [] \<and> oc_write = Rejects \<Longrightarrow>
      \<lparr>nid = notificationIdCounter s,
        message = (if editingTask s = None then AddFailed else UpdateFailed), ntype = NError\<rparr>
        \<in> set (notifications (snd (handleSubmit oc_write oc_load s)))"
    by (cases oc_load; cases "editingTask s")
       (simp_all add: handleSubmit_def loadTasks_run io_defs)
  have reload_note: "trim (newTaskTitle s) \<noteq> [] \<and> oc_load = Rejects \<Longrightarrow>
      \<lparr>nid = Suc (notificationIdCounter s), message = LoadFailed, ntype = NError\<rparr>
        \<in> set (notifications (snd (handleSubmit oc_write oc_load s)))"
    by (cases oc_write; cases "editingTask s")
       (simp_all add: handleSubmit_def loadTasks_run io_defs dexie_add_def split: sum.splits)
  have delete_note: "oc_delete = Rejects \<Longrightarrow>
      \<lparr>nid = notificationIdCounter s, message = DeleteFailed, ntype = NError\<rparr>
        \<in> set (notifications (snd (deleteTask oc_delete oc_load (Some k) s)))"
    by (simp add: deleteTask_def loadTasks_run io_defs)
  have delete_reload_note: "oc_delete = Resolves \<and> oc_load = Rejects \<Longrightarrow>
      \<lparr>nid = Suc (notificationIdCounter s), message = LoadFailed, ntype = NError\<rparr>
        \<in> set (notifications (snd (deleteTask oc_delete oc_load (Some k) s)))"
    by (simp add: deleteTask_def loadTasks_run io_defs)
  from load submit delete load_note write_note reload_note delete_note delete_reload_note
  show ?thesis by blast
qed

text \<open>
  On the first run with the title \<open>B\<close> typed: every call rejected, the three handlers
  complete and the errors are notified; a delete that is fulfilled and whose reload is
  rejected notifies the failed load.
\<close>

theorem handlers_catch_store_failures_witness:
  "trim (newTaskTitle (typeInputs [0x42] [] first_run)) \<noteq> [] \<and>
   fst (loadTasks Rejects (typeInputs [0x42] [] first_run)) = Inr () \<and>
   fst (handleSubmit Rejects Rejects (typeInputs [0x42] [] first_run)) = Inr () \<and>
   fst (deleteTask Rejects Rejects (Some 2) (typeInputs [0x42] [] first_run)) = Inr () \<and>
   \<lparr>nid = 0, message = AddFailed, ntype = NError\<rparr>
     \<in> set (notifications (snd (handleSubmit Rejects Rejects (typeInputs [0x42] [] first_run)))) \<and>
   \<lparr>nid = 1, message = LoadFailed, ntype = NError\<rparr>
     \<in> set (notifications (snd (handleSubmit Rejects Rejects (typeInputs [0x42] [] first_run)))) \<and>
   \<lparr>nid = 0, message = DeleteFailed, ntype = NError\<rparr>
     \<in> set (notifications (snd (deleteTask Rejects Rejects (Some 2) (typeInputs [0x42] [] first_run)))) \<and>
   \<lparr>nid = 1, message = LoadFailed, ntype = NError\<rparr>
     \<in> set (notifications (snd (deleteTask Resolves Rejects (Some 2) first_run)))"
proof -
  have title: "trim (newTaskTitle (typeInputs [0x42] [] first_run)) \<noteq> []"
    by (simp add: typeInputs_def trim_examples)
  show ?thesis
    using title
      handlers_catch_store_failures [where s = "typeInputs [0x42] [] first_run" and oc = Rejects
        and oc_write = Rejects and oc_load = Rejects and oc_delete = Rejects
        and ident = "Some 2" and k = 2]
      handlers_catch_store_failures [where s = first_run and oc = Rejects
        and oc_write = Rejects and oc_load = Rejects and oc_delete = Resolves
        and ident = "Some 2" and k = 2]
    by (simp add: typeInputs_def first_run_fields)
qed

section \<open>Deleting without an id\<close>

text \<open>
  Claim C10. \<open>deleteTask\<close> with an \<open>undefined\<close> id returns at once and leaves the whole
  state as it is: no call on the table, no notification, no reload, the table and the
  snapshot untouched. The same holds for the variant with the confirmation window,
  which then does not even open the window.
\<close>

theorem deleteTask_undefined_noop:
  "deleteTask oc_delete oc_load None s = (Inr (), s) \<and> deleteTask_modal None m = (Inr (), m)"
  by (simp add: deleteTask_def deleteTask_modal_def return_io_def)

end
